theory Spec2Isabelle
  imports Complex_Main "HOL-Library.Multiset"
begin

section \<open>JSON values and the JavaScript operators the handler applies to them\<close>

text \<open>
  The contact function (\<open>netlify/functions/contact.ts\<close>) receives its request body as
  text, parses it with \<open>JSON.parse\<close> and then reads properties of whatever came out:
  the TypeScript interface \<open>ContactSubmission\<close> is not enforced at run time. The
  model therefore works on arbitrary JSON values. A number is kept as a rational (every
  finite double is one); the handler only ever asks whether it is zero. A JavaScript
  value is a JSON value or \<open>undefined\<close>, written \<open>None\<close>.
\<close>

datatype json =
  JNull
| JBool bool
| JNum rat
| JStr string
| JArr "json list"
| JObj "(string \<times> json) list"

type_synonym jsval = "json option"

text \<open>
  \<open>v.k\<close> on a value that is neither \<open>null\<close> nor \<open>undefined\<close>. Only the
  names \<open>contactInfo\<close>, \<open>projectDetails\<close>, \<open>name\<close>, \<open>email\<close>,
  \<open>company\<close>, \<open>projectType\<close>, \<open>description\<close> and \<open>timeline\<close> are ever
  read, and none of them is a property of the String, Number, Boolean, Array or Object
  prototypes, so a read on anything but an object with that key is \<open>undefined\<close>.
\<close>

fun property :: "json \<Rightarrow> string \<Rightarrow> jsval" where
  "property (JObj kvs) k = map_of kvs k"
| "property v k = None"

text \<open>Optional chaining \<open>x?.k\<close>: \<open>undefined\<close> when \<open>x\<close> is nullish.\<close>

fun opt_chain :: "jsval \<Rightarrow> string \<Rightarrow> jsval" where
  "opt_chain None k = None"
| "opt_chain (Some JNull) k = None"
| "opt_chain (Some v) k = property v k"

text \<open>JavaScript truthiness (\<open>ToBoolean\<close>) and the \<open>!\<close> operator.\<close>

fun truthy :: "jsval \<Rightarrow> bool" where
  "truthy None = False"
| "truthy (Some JNull) = False"
| "truthy (Some (JBool b)) = b"
| "truthy (Some (JNum n)) = (n \<noteq> 0)"
| "truthy (Some (JStr s)) = (s \<noteq> [])"
| "truthy (Some (JArr xs)) = True"
| "truthy (Some (JObj kvs)) = True"

definition js_not :: "jsval \<Rightarrow> bool" where
  "js_not v = (\<not> truthy v)"

section \<open>Submissions, the blob store and the environment of one request\<close>

datatype status = New | Reviewed | Responded

text \<open>
  \<open>interface ContactSubmission\<close>. The record is polymorphic in the types of
  \<open>timestamp\<close>, \<open>contactInfo\<close> and \<open>projectDetails\<close>: the function stores what
  the client sent (any JSON), the dashboard reads the typed view. The fields \<open>id\<close>
  and \<open>notes\<close> carry a prime because the plain names are taken in Isabelle.
\<close>

record ('t, 'c, 'p) ContactSubmission =
  id' :: string
  timestamp :: 't
  contactInfo :: 'c
  projectDetails :: 'p
  status :: status
  notes' :: "string option"

text \<open>
  On the server a timestamp is the instant it denotes, in milliseconds since the epoch:
  \<open>new Date().toISOString()\<close> writes it and \<open>new Date(s).getTime()\<close> reads it
  back, and the two are inverse on every instant a clock can show.
\<close>

type_synonym instant = nat

type_synonym stored_submission = "(instant, jsval, jsval) ContactSubmission"

text \<open>
  The blob store \<open>contact-submissions\<close>: keys with the value last set for each, in
  the order \<open>store.list()\<close> gives them. \<open>JSON.stringify\<close> on the way in and the
  \<open>json\<close> read on the way out are taken as inverse, so the store holds the record.
\<close>

type_synonym blob_store = "(string \<times> stored_submission) list"

fun store_set :: "string \<Rightarrow> 'v \<Rightarrow> (string \<times> 'v) list \<Rightarrow> (string \<times> 'v) list" where
  "store_set k v [] = [(k, v)]"
| "store_set k v ((k', v') # kvs) =
     (if k' = k then (k, v) # kvs else (k', v') # store_set k v kvs)"

text \<open>
  What one invocation gets from outside: the runtime's \<open>JSON.parse\<close> (\<open>None\<close> is
  the \<open>SyntaxError\<close> it throws), the clock reading of \<open>Date.now()\<close>, the text
  \<open>Math.random().toString(36).substr(2, 9)\<close>, the clock reading of \<open>new Date()\<close>,
  whether the blob store answers, and whether anything inside the notifier's
  \<open>try\<close> block throws.
\<close>

record env =
  JSON_parse :: "string \<Rightarrow> json option"
  Date_now :: nat
  Math_random_token :: string
  new_Date :: instant
  store_reachable :: bool
  email_block_throws :: bool

datatype exn = SyntaxError | TypeError | StoreUnavailable | NotificationFailure

section \<open>The notifier\<close>

text \<open>
  The body of the \<open>try\<close> block of \<open>sendEmailNotification\<close>: it builds the message
  from the submission and logs it. The text of the message is not modelled, only
  whether the block completes.
\<close>

definition email_block :: "env \<Rightarrow> stored_submission \<Rightarrow> exn + unit" where
  "email_block e submission =
     (if email_block_throws e then Inl NotificationFailure else Inr ())"

text \<open>\<open>try { ...; return true } catch (error) { ...; return false }\<close>\<close>

definition sendEmailNotification :: "env \<Rightarrow> stored_submission \<Rightarrow> exn + bool" where
  "sendEmailNotification e submission =
     (case email_block e submission of
        Inr u \<Rightarrow> Inr True
      | Inl error \<Rightarrow> Inr False)"

section \<open>The request handler\<close>

record event =
  httpMethod :: string
  body :: "string option"

datatype payload =
  NoContent
| ErrorBody string
| Accepted string string
| Listing "stored_submission list"

record response =
  statusCode :: nat
  headers :: "(string \<times> string) list"
  body' :: payload

definition cors :: "(string \<times> string) list" where
  "cors =
     [(''Access-Control-Allow-Origin'', ''*''),
      (''Access-Control-Allow-Headers'', ''Content-Type''),
      (''Access-Control-Allow-Methods'', ''GET, POST, OPTIONS'')]"

definition json_headers :: "(string \<times> string) list" where
  "json_headers = cors @ [(''Content-Type'', ''application/json'')]"

text \<open>A non-negative integer in a template literal: its decimal digits.\<close>

function Number_toString :: "nat \<Rightarrow> string" where
  "Number_toString n =
     (if n < 10 then [''0123456789'' ! n]
      else Number_toString (n div 10) @ [''0123456789'' ! (n mod 10)])"
  by pat_completeness auto
termination
  by (relation "measure (\<lambda>n. n)") auto

declare Number_toString.simps [simp del]

text \<open>\<open>`sub_${Date.now()}_${Math.random().toString(36).substr(2, 9)}`\<close>\<close>

definition new_id :: "env \<Rightarrow> string" where
  "new_id e = ''sub_'' @ Number_toString (Date_now e) @ ''_'' @ Math_random_token e"

text \<open>
  \<open>submissions.sort((a, b) => new Date(b.timestamp).getTime() - new Date(a.timestamp).getTime())\<close>.
  \<open>Array.prototype.sort\<close> is stable and puts \<open>a\<close> before \<open>b\<close> when the
  comparator is negative; with a consistent comparator its result is the one a stable
  insertion sort gives.
\<close>

definition newest_first :: "stored_submission \<Rightarrow> stored_submission \<Rightarrow> int" where
  "newest_first a b = int (timestamp b) - int (timestamp a)"

fun insert_by :: "('a \<Rightarrow> 'a \<Rightarrow> int) \<Rightarrow> 'a \<Rightarrow> 'a list \<Rightarrow> 'a list" where
  "insert_by cmp x [] = [x]"
| "insert_by cmp x (y # ys) =
     (if cmp x y \<le> 0 then x # y # ys else y # insert_by cmp x ys)"

definition Array_sort :: "('a \<Rightarrow> 'a \<Rightarrow> int) \<Rightarrow> 'a list \<Rightarrow> 'a list" where
  "Array_sort cmp xs = foldr (insert_by cmp) xs []"

text \<open>The \<open>try\<close> block of the GET branch.\<close>

definition get_block :: "env \<Rightarrow> blob_store \<Rightarrow> exn + response" where
  "get_block e store =
     (if \<not> store_reachable e then Inl StoreUnavailable
      else
        let submissions = Array_sort newest_first (map snd store)
        in Inr \<lparr>statusCode = 200, headers = json_headers, body' = Listing submissions\<rparr>)"

text \<open>\<open>event.body || '{}'\<close>: an absent body and an empty one are both falsy.\<close>

fun body_or_default :: "string option \<Rightarrow> string" where
  "body_or_default None = ''{}''"
| "body_or_default (Some s) = (if s = [] then ''{}'' else s)"

text \<open>
  The \<open>try\<close> block of the POST branch. \<open>event.body || '{}'\<close> replaces an absent
  and an empty body; destructuring \<open>null\<close> throws a \<open>TypeError\<close>; the two guards
  return 400 before anything is written; \<open>store.set\<close> throws when the store does
  not answer; the notifier is awaited and its result dropped.
\<close>

definition post_block :: "env \<Rightarrow> blob_store \<Rightarrow> string option \<Rightarrow> (exn + response) \<times> blob_store" where
  "post_block e store b =
     (case JSON_parse e (body_or_default b) of
        None \<Rightarrow> (Inl SyntaxError, store)
      | Some JNull \<Rightarrow> (Inl TypeError, store)
      | Some parsed \<Rightarrow>
          let contactInfo = property parsed ''contactInfo'';
              projectDetails = property parsed ''projectDetails''
          in
            if js_not (opt_chain contactInfo ''name'') \<or> js_not (opt_chain contactInfo ''email'')
               \<or> js_not (opt_chain contactInfo ''company'')
            then (Inr \<lparr>statusCode = 400, headers = cors,
                        body' = ErrorBody ''Missing required contact information''\<rparr>, store)
            else if js_not (opt_chain projectDetails ''projectType'')
               \<or> js_not (opt_chain projectDetails ''description'')
               \<or> js_not (opt_chain projectDetails ''timeline'')
            then (Inr \<lparr>statusCode = 400, headers = cors,
                        body' = ErrorBody ''Missing required project details''\<rparr>, store)
            else
              let submission =
                    \<lparr>id' = new_id e, timestamp = new_Date e, contactInfo = contactInfo,
                     projectDetails = projectDetails, status = New, notes' = None\<rparr>
              in
                if \<not> store_reachable e then (Inl StoreUnavailable, store)
                else
                  let store' = store_set (id' submission) submission store
                  in (case sendEmailNotification e submission of
                        Inl error \<Rightarrow> (Inl error, store')
                      | Inr sent \<Rightarrow>
                          (Inr \<lparr>statusCode = 200, headers = json_headers,
                                 body' = Accepted (id' submission)
                                           ''Submission received successfully''\<rparr>, store')))"

text \<open>
  The handler: what it answers and the store it leaves. Each branch catches whatever
  its block throws and answers 500; what the block wrote before it threw stays written.
\<close>

definition handler :: "env \<Rightarrow> blob_store \<Rightarrow> event \<Rightarrow> response \<times> blob_store" where
  "handler e store ev =
     (if httpMethod ev = ''OPTIONS''
      then (\<lparr>statusCode = 200, headers = cors, body' = NoContent\<rparr>, store)
      else if httpMethod ev = ''GET''
      then (case get_block e store of
              Inr r \<Rightarrow> (r, store)
            | Inl error \<Rightarrow>
                (\<lparr>statusCode = 500, headers = cors,
                  body' = ErrorBody ''Failed to fetch submissions''\<rparr>, store))
      else if httpMethod ev = ''POST''
      then (case post_block e store (body ev) of
              (Inr r, store') \<Rightarrow> (r, store')
            | (Inl error, store') \<Rightarrow>
                (\<lparr>statusCode = 500, headers = cors,
                  body' = ErrorBody ''Failed to process submission''\<rparr>, store'))
      else (\<lparr>statusCode = 405, headers = cors, body' = ErrorBody ''Method not allowed''\<rparr>, store))"

text \<open>
  A parsed body gets past both guards of the POST branch exactly when all six required
  reads are truthy.
\<close>

definition passes_validation :: "json \<Rightarrow> bool" where
  "passes_validation parsed =
     (truthy (opt_chain (property parsed ''contactInfo'') ''name'')
      \<and> truthy (opt_chain (property parsed ''contactInfo'') ''email'')
      \<and> truthy (opt_chain (property parsed ''contactInfo'') ''company'')
      \<and> truthy (opt_chain (property parsed ''projectDetails'') ''projectType'')
      \<and> truthy (opt_chain (property parsed ''projectDetails'') ''description'')
      \<and> truthy (opt_chain (property parsed ''projectDetails'') ''timeline''))"

abbreviation POST :: "string option \<Rightarrow> event" where
  "POST b \<equiv> \<lparr>httpMethod = ''POST'', body = b\<rparr>"

abbreviation GET :: event where
  "GET \<equiv> \<lparr>httpMethod = ''GET'', body = None\<rparr>"

section \<open>The admin dashboard\<close>

text \<open>
  The dashboard's view of a submission, as its interface declares it. \<open>phone\<close>,
  \<open>budget\<close> and \<open>requirements\<close> are the fields the code guards with
  \<open>|| ''\<close> or \<open>?.\<close>, so they may be \<open>undefined\<close> (\<open>None\<close>).
\<close>

record contact_info =
  name :: string
  email :: string
  company :: string
  phone :: "string option"

record project_details =
  projectType :: string
  description :: string
  timeline :: string
  budget :: "string option"
  requirements :: "string option"

type_synonym dashboard_submission = "(string, contact_info, project_details) ContactSubmission"

text \<open>
  \<open>prev.map(sub => sub.id === id ? { ...sub, status, ...(notes !== undefined && { notes }) } : sub)\<close>:
  the new list \<open>setSubmissions\<close> installs.
\<close>

definition updateSubmissionStatus ::
  "string \<Rightarrow> status \<Rightarrow> string option \<Rightarrow> dashboard_submission list \<Rightarrow> dashboard_submission list" where
  "updateSubmissionStatus i st notes prev =
     map (\<lambda>sub. if id' sub = i
               then (case notes of
                       None \<Rightarrow> sub\<lparr>status := st\<rparr>
                     | Some n \<Rightarrow> sub\<lparr>status := st, notes' := Some n\<rparr>)
               else sub) prev"

datatype status_filter = AllStatuses | OnlyStatus status

text \<open>\<open>filter === 'all' || sub.status === filter\<close>\<close>

fun shown :: "status_filter \<Rightarrow> dashboard_submission \<Rightarrow> bool" where
  "shown AllStatuses sub = True"
| "shown (OnlyStatus st) sub = (status sub = st)"

fun status_text :: "status \<Rightarrow> string" where
  "status_text New = ''new''"
| "status_text Reviewed = ''reviewed''"
| "status_text Responded = ''responded''"

definition dquote :: char where
  "dquote = CHR 0x22"

text \<open>\<open>s.replace(/"/g, '""')\<close>\<close>

definition replace_quotes :: "string \<Rightarrow> string" where
  "replace_quotes s = concat (map (\<lambda>c. if c = dquote then [dquote, dquote] else [c]) s)"

text \<open>\<open>x || ''\<close> on a string that may be \<open>undefined\<close>.\<close>

fun or_empty :: "string option \<Rightarrow> string" where
  "or_empty None = []"
| "or_empty (Some s) = (if s = [] then [] else s)"

text \<open>\<open>Array.prototype.join\<close>\<close>

fun join :: "string \<Rightarrow> string list \<Rightarrow> string" where
  "join sep [] = []"
| "join sep [x] = x"
| "join sep (x # y # ys) = x @ sep @ join sep (y # ys)"

text \<open>The twelve fields of one data row of \<open>exportToCSV\<close>, in the order of the array literal.\<close>

definition csv_fields :: "dashboard_submission \<Rightarrow> string list" where
  "csv_fields sub =
     [id' sub,
      timestamp sub,
      name (contactInfo sub),
      email (contactInfo sub),
      company (contactInfo sub),
      or_empty (phone (contactInfo sub)),
      projectType (projectDetails sub),
      timeline (projectDetails sub),
      or_empty (budget (projectDetails sub)),
      status_text (status sub),
      [dquote] @ replace_quotes (description (projectDetails sub)) @ [dquote],
      [dquote] @ or_empty (map_option replace_quotes (requirements (projectDetails sub))) @ [dquote]]"

definition csv_header :: string where
  "csv_header =
     ''ID,Timestamp,Name,Email,Company,Phone,Project Type,Timeline,Budget,Status,Description,Requirements''"

text \<open>\<open>csvContent\<close>, the text \<open>exportToCSV\<close> puts in the downloaded file.\<close>

definition exportToCSV :: "status_filter \<Rightarrow> dashboard_submission list \<Rightarrow> string" where
  "exportToCSV flt submissions =
     join [CHR 0x0A]
       (csv_header # map (\<lambda>sub. join '','' (csv_fields sub)) (filter (shown flt) submissions))"

text \<open>
  Reading a quoted CSV field back, as the standard defines it: the field starts and
  ends with a double quote, and between them every double quote comes doubled and stands
  for one. This is the reader the export is measured against, not code of the dashboard.
\<close>

fun csv_unescape :: "string \<Rightarrow> string option" where
  "csv_unescape [] = Some []"
| "csv_unescape [c] = (if c = dquote then None else Some [c])"
| "csv_unescape (c # d # cs) =
     (if c = dquote
      then (if d = dquote then map_option (\<lambda>r. dquote # r) (csv_unescape cs) else None)
      else map_option (\<lambda>r. c # r) (csv_unescape (d # cs)))"

definition csv_unquote :: "string \<Rightarrow> string option" where
  "csv_unquote field =
     (if 2 \<le> length field \<and> hd field = dquote \<and> last field = dquote
      then csv_unescape (butlast (tl field))
      else None)"

section \<open>The intake form's validation\<close>

text \<open>
  White space as \<open>\s\<close> in a regular expression and \<open>String.prototype.trim\<close> see
  it, for strings of code units below 256: tab, line feed, vertical tab, form feed,
  carriage return, space and the no-break space.
\<close>

definition is_space :: "char \<Rightarrow> bool" where
  "is_space c = (c \<in> set [CHR 0x09, CHR 0x0A, CHR 0x0B, CHR 0x0C, CHR 0x0D, CHR 0x20, CHR 0xA0])"

definition trim :: "string \<Rightarrow> string" where
  "trim s = rev (dropWhile is_space (rev (dropWhile is_space s)))"

text \<open>
  Regular expressions with character classes, matched by derivatives: \<open>test r s\<close>
  says whether \<open>r\<close> matches the whole of \<open>s\<close>, which is what a pattern anchored
  with \<open>^\<close> and \<open>$\<close> asks.
\<close>

datatype regex =
  Nothing
| Empty
| Class "char \<Rightarrow> bool"
| Then regex regex
| Or regex regex
| Many regex

fun nullable :: "regex \<Rightarrow> bool" where
  "nullable Nothing = False"
| "nullable Empty = True"
| "nullable (Class P) = False"
| "nullable (Then r s) = (nullable r \<and> nullable s)"
| "nullable (Or r s) = (nullable r \<or> nullable s)"
| "nullable (Many r) = True"

fun deriv :: "char \<Rightarrow> regex \<Rightarrow> regex" where
  "deriv c Nothing = Nothing"
| "deriv c Empty = Nothing"
| "deriv c (Class P) = (if P c then Empty else Nothing)"
| "deriv c (Then r s) =
     (if nullable r then Or (Then (deriv c r) s) (deriv c s) else Then (deriv c r) s)"
| "deriv c (Or r s) = Or (deriv c r) (deriv c s)"
| "deriv c (Many r) = Then (deriv c r) (Many r)"

definition test :: "regex \<Rightarrow> string \<Rightarrow> bool" where
  "test r s = nullable (foldl (\<lambda>r c. deriv c r) r s)"

definition some :: "regex \<Rightarrow> regex" where
  "some r = Then r (Many r)"

text \<open>\<open>/^[^\s@]+@[^\s@]+\.[^\s@]+$/\<close>\<close>

definition email_pattern :: regex where
  "email_pattern =
     (let word = some (Class (\<lambda>c. \<not> is_space c \<and> c \<noteq> CHR ''@''))
      in Then word (Then (Class (\<lambda>c. c = CHR ''@'')) (Then word (Then (Class (\<lambda>c. c = CHR ''.'')) word))))"

text \<open>
  \<open>validateContactInfo\<close> and \<open>validateProjectDetails\<close> of \<open>ContactForm.tsx\<close>, on
  the form's \<open>contactInfo\<close> and \<open>projectDetails\<close>: the errors they set, and their
  result \<open>Object.keys(newErrors).length === 0\<close>. Neither reads an optional field.
\<close>

definition contact_errors :: "contact_info \<Rightarrow> (string \<times> string) list" where
  "contact_errors ci =
     (if trim (name ci) = [] then [(''name'', ''Name is required'')] else []) @
     (if trim (email ci) = [] then [(''email'', ''Email is required'')]
      else if \<not> test email_pattern (email ci)
      then [(''email'', ''Please enter a valid email address'')] else []) @
     (if trim (company ci) = [] then [(''company'', ''Company name is required'')] else [])"

definition validateContactInfo :: "contact_info \<Rightarrow> bool" where
  "validateContactInfo ci = (contact_errors ci = [])"

definition project_errors :: "project_details \<Rightarrow> (string \<times> string) list" where
  "project_errors pd =
     (if projectType pd = [] then [(''projectType'', ''Please select a project type'')] else []) @
     (if trim (description pd) = [] then [(''description'', ''Project description is required'')] else []) @
     (if timeline pd = [] then [(''timeline'', ''Please select a timeline'')] else [])"

definition validateProjectDetails :: "project_details \<Rightarrow> bool" where
  "validateProjectDetails pd = (project_errors pd = [])"

section \<open>Orders and example requests used in the statements below\<close>

text \<open>\<open>a\<close> may stand before \<open>b\<close> in a newest-first listing.\<close>

definition not_older :: "stored_submission \<Rightarrow> stored_submission \<Rightarrow> bool" where
  "not_older a b = (timestamp b \<le> timestamp a)"

text \<open>
  The request of the README, with the name and the email address left open, as the
  text a client posts and as the value \<open>JSON.parse\<close> reads from it.
\<close>

definition inquiry_text :: "string \<Rightarrow> string \<Rightarrow> string" where
  \<open>inquiry_text nm em =
     ''{"contactInfo":{"name":"'' @ nm @ ''","email":"'' @ em @
     ''","company":"TechCorp","phone":"+1-555-0123"},'' @
     ''"projectDetails":{"projectType":"System Architecture",'' @
     ''"description":"Need help with scalable infrastructure","timeline":"3-6 months",'' @
     ''"budget":"$100k - $250k","requirements":"AWS, Kubernetes"}}''\<close>

definition inquiry :: "string \<Rightarrow> string \<Rightarrow> json" where
  "inquiry nm em =
     JObj [(''contactInfo'',
            JObj [(''name'', JStr nm), (''email'', JStr em), (''company'', JStr ''TechCorp''),
                  (''phone'', JStr ''+1-555-0123'')]),
           (''projectDetails'',
            JObj [(''projectType'', JStr ''System Architecture''),
                  (''description'', JStr ''Need help with scalable infrastructure''),
                  (''timeline'', JStr ''3-6 months''), (''budget'', JStr ''$100k - $250k''),
                  (''requirements'', JStr ''AWS, Kubernetes'')])]"

text \<open>The same request with \<open>company\<close> left out.\<close>

definition no_company_text :: string where
  \<open>no_company_text =
     ''{"contactInfo":{"name":"John Smith","email":"john@example.com"},'' @
     ''"projectDetails":{"projectType":"System Architecture",'' @
     ''"description":"Need help with scalable infrastructure","timeline":"3-6 months"}}''\<close>

definition no_company :: json where
  "no_company =
     JObj [(''contactInfo'', JObj [(''name'', JStr ''John Smith''), (''email'', JStr ''john@example.com'')]),
           (''projectDetails'',
            JObj [(''projectType'', JStr ''System Architecture''),
                  (''description'', JStr ''Need help with scalable infrastructure''),
                  (''timeline'', JStr ''3-6 months'')])]"

text \<open>
  \<open>JSON.parse\<close> on the texts the examples post: the empty object, the inquiries
  above and the literal \<open>null\<close>; the one other text the examples use is cut off in
  the middle and does not parse.
\<close>

definition example_parse :: "string \<Rightarrow> json option" where
  "example_parse text =
     map_of
       [(''{}'', JObj []),
        (''null'', JNull),
        (inquiry_text ''John Smith'' ''john@example.com'', inquiry ''John Smith'' ''john@example.com''),
        (inquiry_text ''Jane Doe'' ''jane@example.com'', inquiry ''Jane Doe'' ''jane@example.com''),
        (inquiry_text ''John Smith'' ''ab.com'', inquiry ''John Smith'' ''ab.com''),
        (inquiry_text ''John Smith'' ''a@b'', inquiry ''John Smith'' ''a@b''),
        (inquiry_text ''   '' ''john@example.com'', inquiry ''   '' ''john@example.com''),
        (no_company_text, no_company)] text"

definition example_env :: env where
  "example_env =
     \<lparr>JSON_parse = example_parse, Date_now = 1705314600000, Math_random_token = ''k3x9q2m7p'',
      new_Date = 1705314600000, store_reachable = True, email_block_throws = False\<rparr>"

text \<open>A store of three submissions, keyed by identifier, and a row of the dashboard.\<close>

definition stored_at :: "string \<Rightarrow> instant \<Rightarrow> string \<times> stored_submission" where
  "stored_at i t =
     (i, \<lparr>id' = i, timestamp = t,
          contactInfo = property (inquiry ''John Smith'' ''john@example.com'') ''contactInfo'',
          projectDetails = property (inquiry ''John Smith'' ''john@example.com'') ''projectDetails'',
          status = New, notes' = None\<rparr>)"

definition example_store :: blob_store where
  "example_store =
     [stored_at ''sub_1705314600000_aaaaaaaaa'' 1705314600000,
      stored_at ''sub_1705314700000_bbbbbbbbb'' 1705314700000,
      stored_at ''sub_1705314500000_ccccccccc'' 1705314500000]"

definition example_row :: "string \<Rightarrow> status \<Rightarrow> string option \<Rightarrow> dashboard_submission" where
  "example_row i st n =
     \<lparr>id' = i, timestamp = ''2024-01-15T10:30:00.000Z'',
      contactInfo =
        \<lparr>name = ''John Smith'', email = ''john@example.com'', company = ''TechCorp'',
         phone = Some ''+1-555-0123''\<rparr>,
      projectDetails =
        \<lparr>projectType = ''System Architecture'',
         description = ''Need help with scalable infrastructure'', timeline = ''3-6 months'',
         budget = Some ''$100k - $250k'', requirements = Some ''AWS, Kubernetes''\<rparr>,
      status = st, notes' = n\<rparr>"

section \<open>Auxiliary facts\<close>

subsection \<open>The store\<close>

lemma map_of_store_set: "map_of (store_set k v kvs) = (map_of kvs)(k \<mapsto> v)"
  by (induction kvs) auto

subsection \<open>The listing order\<close>

lemma mset_insert_by: "mset (insert_by cmp x xs) = add_mset x (mset xs)"
  by (induction xs) auto

lemma mset_Array_sort: "mset (Array_sort cmp xs) = mset xs"
  unfolding Array_sort_def by (induction xs) (auto simp: mset_insert_by)

lemma set_insert_by: "set (insert_by cmp x xs) = insert x (set xs)"
  by (induction xs) auto

lemma insert_newest_first:
  "sorted_wrt not_older xs \<Longrightarrow> sorted_wrt not_older (insert_by newest_first x xs)"
proof (induction xs)
  case Nil
  then show ?case by simp
next
  case (Cons y ys)
  show ?case
  proof (cases "newest_first x y \<le> 0")
    case True
    then have xy: "not_older x y" by (simp add: newest_first_def not_older_def)
    have "\<forall>z \<in> set ys. not_older x z"
      using Cons.prems xy by (auto simp: not_older_def)
    with True xy Cons.prems show ?thesis by simp
  next
    case False
    then have yx: "not_older y x" by (simp add: newest_first_def not_older_def)
    with False Cons show ?thesis by (auto simp: set_insert_by)
  qed
qed

lemma sorted_Array_sort: "sorted_wrt not_older (Array_sort newest_first xs)"
  unfolding Array_sort_def by (induction xs) (auto simp: insert_newest_first)

subsection \<open>Quoting in the CSV export\<close>

lemma replace_quotes_Cons:
  "replace_quotes (c # s) = (if c = dquote then [dquote, dquote] else [c]) @ replace_quotes s"
  by (simp add: replace_quotes_def)

lemma replace_quotes_Nil: "replace_quotes [] = []"
  by (simp add: replace_quotes_def)

lemma csv_unescape_plain:
  "c \<noteq> dquote \<Longrightarrow> csv_unescape (c # cs) = map_option (\<lambda>r. c # r) (csv_unescape cs)"
  by (cases cs) auto

lemma csv_unescape_replace_quotes: "csv_unescape (replace_quotes s) = Some s"
proof (induction s)
  case Nil
  show ?case by (simp add: replace_quotes_Nil)
next
  case (Cons c s)
  show ?case
  proof (cases "c = dquote")
    case True
    with Cons show ?thesis by (simp add: replace_quotes_Cons)
  next
    case False
    with Cons show ?thesis by (simp add: replace_quotes_Cons csv_unescape_plain)
  qed
qed

lemma csv_unquote_quoted: "csv_unquote ([dquote] @ replace_quotes s @ [dquote]) = Some s"
  by (simp add: csv_unquote_def csv_unescape_replace_quotes butlast_append)

lemma or_empty_replace_quotes:
  "or_empty (map_option replace_quotes r) = replace_quotes (or_empty r)"
  by (cases r) (auto simp: replace_quotes_def)

lemma join_Cons: "join sep (x # xs) = x @ concat (map (\<lambda>y. sep @ y) xs)"
  by (induction xs arbitrary: x) auto

lemma or_empty_case: "or_empty x = (case x of None \<Rightarrow> [] | Some s \<Rightarrow> s)"
  by (cases x) auto

lemma shown_iff: "shown flt = (\<lambda>sub. flt = AllStatuses \<or> flt = OnlyStatus (status sub))"
  by (rule ext) (cases flt, auto)

lemma status_text_case:
  "status_text st = (case st of New \<Rightarrow> ''new'' | Reviewed \<Rightarrow> ''reviewed'' | Responded \<Rightarrow> ''responded'')"
  by (cases st) auto

lemma replace_quotes_append: "replace_quotes (a @ b) = replace_quotes a @ replace_quotes b"
  by (simp add: replace_quotes_def)

lemma replace_quotes_plain: "dquote \<notin> set s \<Longrightarrow> replace_quotes s = s"
  by (induction s) (auto simp: replace_quotes_Cons replace_quotes_Nil)

lemma csv_unescape_only: "csv_unescape s = Some d \<Longrightarrow> s = replace_quotes d"
proof (induction s arbitrary: d rule: csv_unescape.induct)
  case 1
  then show ?case by (simp add: replace_quotes_Nil)
next
  case (2 c)
  then show ?case by (auto simp: replace_quotes_Cons replace_quotes_Nil split: if_splits)
next
  case (3 c e cs)
  show ?case
  proof (cases "c = dquote")
    case True
    with "3.prems" obtain r where r: "e = dquote" "csv_unescape cs = Some r" "d = dquote # r"
      by (auto split: if_splits)
    from "3.IH"(1) [OF True r(1) r(2)] have "cs = replace_quotes r" .
    with True r show ?thesis by (simp add: replace_quotes_Cons)
  next
    case False
    with "3.prems" obtain r where r: "csv_unescape (e # cs) = Some r" "d = c # r"
      by auto
    from "3.IH"(2) [OF False r(1)] have "e # cs = replace_quotes r" .
    with False r show ?thesis by (simp add: replace_quotes_Cons)
  qed
qed

lemma csv_unquote_only:
  assumes "csv_unquote field = Some d"
  shows "field = [dquote] @ replace_quotes d @ [dquote]"
proof -
  from assms have len: "2 \<le> length field" and h: "hd field = dquote" and l: "last field = dquote"
    and u: "csv_unescape (butlast (tl field)) = Some d"
    by (auto simp: csv_unquote_def split: if_splits)
  from len obtain x rest where f: "field = x # rest" "rest \<noteq> []"
    by (cases field) (auto simp: Suc_le_eq)
  with h l have "field = dquote # butlast rest @ [dquote]"
    by simp (metis append_butlast_last_id)
  moreover from f have "butlast (tl field) = butlast rest" by simp
  ultimately show ?thesis using csv_unescape_only [OF u] by simp
qed

subsection \<open>Submission identifiers\<close>

lemma digit_in_digits: "k < 10 \<Longrightarrow> ''0123456789'' ! k \<in> set ''0123456789''"
  by (rule nth_mem) simp

lemma digit_inject:
  "j < 10 \<Longrightarrow> k < 10 \<Longrightarrow> ''0123456789'' ! j = ''0123456789'' ! k \<Longrightarrow> j = k"
proof -
  assume j: "j < 10" and k: "k < 10" and eq: "''0123456789'' ! j = ''0123456789'' ! k"
  have d: "distinct ''0123456789''" by simp
  from j k have "j < length ''0123456789''" "k < length ''0123456789''" by simp_all
  with d eq show "j = k" by (simp only: nth_eq_iff_index_eq)
qed

lemma Number_toString_digits: "set (Number_toString n) \<subseteq> set ''0123456789''"
proof (induction n rule: Number_toString.induct)
  case (1 n)
  show ?case
  proof (cases "n < 10")
    case True
    then show ?thesis
      using digit_in_digits [of n] by (subst Number_toString.simps) simp
  next
    case False
    have "n mod 10 < 10" by simp
    from digit_in_digits [OF this] 1 [OF False] False show ?thesis
      by (subst Number_toString.simps) simp
  qed
qed

lemma Number_toString_no_underscore: "CHR ''_'' \<notin> set (Number_toString n)"
  using Number_toString_digits [of n] by auto

lemma Number_toString_nonempty: "Number_toString n \<noteq> []"
  by (subst Number_toString.simps) simp

lemma Number_toString_inject: "Number_toString n = Number_toString m \<Longrightarrow> n = m"
proof (induction n arbitrary: m rule: Number_toString.induct)
  case (1 n)
  show ?case
  proof (cases "n < 10")
    case n: True
    show ?thesis
    proof (cases "m < 10")
      case True
      with n "1.prems" have "''0123456789'' ! n = ''0123456789'' ! m"
        by (simp add: Number_toString.simps [of n] Number_toString.simps [of m])
      with n True show ?thesis by (rule digit_inject)
    next
      case False
      with n "1.prems" Number_toString_nonempty [of "m div 10"] show ?thesis
        by (simp add: Number_toString.simps [of n] Number_toString.simps [of m])
    qed
  next
    case n: False
    show ?thesis
    proof (cases "m < 10")
      case True
      with n "1.prems" Number_toString_nonempty [of "n div 10"] show ?thesis
        by (simp add: Number_toString.simps [of n] Number_toString.simps [of m])
    next
      case False
      with n "1.prems" have hi: "Number_toString (n div 10) = Number_toString (m div 10)"
        and lo: "''0123456789'' ! (n mod 10) = ''0123456789'' ! (m mod 10)"
        by (simp_all add: Number_toString.simps [of n] Number_toString.simps [of m])
      from "1.IH" [OF n hi] have d: "n div 10 = m div 10" .
      have "n mod 10 = m mod 10" by (rule digit_inject [OF _ _ lo]) simp_all
      with d show ?thesis by (metis div_mult_mod_eq)
    qed
  qed
qed

lemma split_at_separator:
  "c \<notin> set xs \<Longrightarrow> c \<notin> set ys \<Longrightarrow> xs @ c # r = ys @ c # r' \<Longrightarrow> xs = ys \<and> r = r'"
proof (induction xs arbitrary: ys)
  case Nil
  then show ?case by (cases ys) auto
next
  case (Cons x xs)
  then show ?case by (cases ys) auto
qed

lemma new_id_inject:
  "(new_id e = new_id e2) = (Date_now e = Date_now e2 \<and> Math_random_token e = Math_random_token e2)"
proof
  assume "new_id e = new_id e2"
  then have "Number_toString (Date_now e) @ CHR ''_'' # Math_random_token e
      = Number_toString (Date_now e2) @ CHR ''_'' # Math_random_token e2"
    by (simp add: new_id_def)
  from split_at_separator [OF Number_toString_no_underscore Number_toString_no_underscore this]
  show "Date_now e = Date_now e2 \<and> Math_random_token e = Math_random_token e2"
    by (auto dest: Number_toString_inject)
next
  assume "Date_now e = Date_now e2 \<and> Math_random_token e = Math_random_token e2"
  then show "new_id e = new_id e2" by (simp add: new_id_def)
qed

lemma new_id_nonempty: "new_id e \<noteq> []"
  by (simp add: new_id_def)

subsection \<open>The notifier and the POST block\<close>

lemma sendEmailNotification_returns: "sendEmailNotification e s = Inr (\<not> email_block_throws e)"
  by (simp add: sendEmailNotification_def email_block_def)

lemma passes_validation_not_null: "passes_validation parsed \<Longrightarrow> parsed \<noteq> JNull"
  by (auto simp: passes_validation_def)

lemma post_block_unparseable:
  "JSON_parse e (body_or_default b) = None \<Longrightarrow> post_block e store b = (Inl SyntaxError, store)"
  by (simp add: post_block_def)

lemma post_block_null:
  "JSON_parse e (body_or_default b) = Some JNull \<Longrightarrow> post_block e store b = (Inl TypeError, store)"
  by (simp add: post_block_def)

lemma post_block_invalid:
  assumes "JSON_parse e (body_or_default b) = Some parsed" "parsed \<noteq> JNull"
    "\<not> passes_validation parsed"
  shows "\<exists>msg. post_block e store b = (Inr \<lparr>statusCode = 400, headers = cors, body' = ErrorBody msg\<rparr>, store)"
  using assms
  by (cases parsed) (auto simp: post_block_def passes_validation_def js_not_def Let_def)

lemma post_block_valid:
  assumes "JSON_parse e (body_or_default b) = Some parsed" "passes_validation parsed"
  shows "post_block e store b =
     (if store_reachable e
      then (Inr \<lparr>statusCode = 200, headers = json_headers,
                  body' = Accepted (new_id e) ''Submission received successfully''\<rparr>,
            store_set (new_id e)
              \<lparr>id' = new_id e, timestamp = new_Date e,
               contactInfo = property parsed ''contactInfo'',
               projectDetails = property parsed ''projectDetails'',
               status = New, notes' = None\<rparr> store)
      else (Inl StoreUnavailable, store))"
  using assms passes_validation_not_null [OF assms(2)]
  by (cases parsed)
     (simp_all add: post_block_def passes_validation_def js_not_def Let_def
        sendEmailNotification_returns)

subsection \<open>The handler on POST and GET, and the example requests\<close>

lemma handler_POST:
  "handler e store (POST b) =
     (case post_block e store b of
        (Inr r, store') \<Rightarrow> (r, store')
      | (Inl error, store') \<Rightarrow>
          (\<lparr>statusCode = 500, headers = cors,
            body' = ErrorBody ''Failed to process submission''\<rparr>, store'))"
  by (simp add: handler_def)

lemma handler_GET:
  "handler e store GET =
     (case get_block e store of
        Inr r \<Rightarrow> (r, store)
      | Inl error \<Rightarrow>
          (\<lparr>statusCode = 500, headers = cors,
            body' = ErrorBody ''Failed to fetch submissions''\<rparr>, store))"
  by (simp add: handler_def)


lemma parse_john:
  "JSON_parse example_env (body_or_default (Some (inquiry_text ''John Smith'' ''john@example.com'')))
     = Some (inquiry ''John Smith'' ''john@example.com'')"
  by (simp add: example_env_def example_parse_def inquiry_text_def)

lemma parse_jane:
  "JSON_parse example_env (body_or_default (Some (inquiry_text ''Jane Doe'' ''jane@example.com'')))
     = Some (inquiry ''Jane Doe'' ''jane@example.com'')"
  by (simp add: example_env_def example_parse_def inquiry_text_def)

lemma parse_no_at:
  "JSON_parse example_env (body_or_default (Some (inquiry_text ''John Smith'' ''ab.com'')))
     = Some (inquiry ''John Smith'' ''ab.com'')"
  by (simp add: example_env_def example_parse_def inquiry_text_def)

lemma parse_no_dot:
  "JSON_parse example_env (body_or_default (Some (inquiry_text ''John Smith'' ''a@b'')))
     = Some (inquiry ''John Smith'' ''a@b'')"
  by (simp add: example_env_def example_parse_def inquiry_text_def)

lemma parse_blank_name:
  "JSON_parse example_env (body_or_default (Some (inquiry_text ''   '' ''john@example.com'')))
     = Some (inquiry ''   '' ''john@example.com'')"
  by (simp add: example_env_def example_parse_def inquiry_text_def)

lemma parse_no_company:
  "JSON_parse example_env (body_or_default (Some no_company_text)) = Some no_company"
  by (simp add: example_env_def example_parse_def no_company_text_def inquiry_text_def)

lemma inquiry_passes: "passes_validation (inquiry nm em) = (nm \<noteq> [] \<and> em \<noteq> [])"
  by (simp add: passes_validation_def inquiry_def)

lemma Number_toString_small: "n < 10 \<Longrightarrow> Number_toString n = [''0123456789'' ! n]"
  by (subst Number_toString.simps) simp

lemma Number_toString_step:
  "10 \<le> n \<Longrightarrow> Number_toString n = Number_toString (n div 10) @ [''0123456789'' ! (n mod 10)]"
  by (subst Number_toString.simps) simp

lemma example_number: "Number_toString 1705314600000 = ''1705314600000''"
  by (simp add: Number_toString_small Number_toString_step)

lemma example_id: "new_id example_env = ''sub_1705314600000_k3x9q2m7p''"
  by (simp add: new_id_def example_env_def example_number)

lemma example_reachable: "store_reachable example_env"
  by (simp add: example_env_def)

lemma handler_POST_valid:
  assumes "JSON_parse e (body_or_default b) = Some parsed" "passes_validation parsed"
    "store_reachable e"
  shows "handler e store (POST b) =
       (\<lparr>statusCode = 200, headers = json_headers,
         body' = Accepted (new_id e) ''Submission received successfully''\<rparr>,
        store_set (new_id e)
          \<lparr>id' = new_id e, timestamp = new_Date e,
           contactInfo = property parsed ''contactInfo'',
           projectDetails = property parsed ''projectDetails'',
           status = New, notes' = None\<rparr> store)"
  using assms(3) by (simp add: handler_POST post_block_valid [OF assms(1,2)])

lemma handler_POST_example:
  assumes "JSON_parse example_env (body_or_default b) = Some (inquiry nm em)"
    "nm \<noteq> []" "em \<noteq> []"
  shows "handler example_env store (POST b) =
       (\<lparr>statusCode = 200, headers = json_headers,
         body' = Accepted ''sub_1705314600000_k3x9q2m7p'' ''Submission received successfully''\<rparr>,
        store_set ''sub_1705314600000_k3x9q2m7p''
          \<lparr>id' = ''sub_1705314600000_k3x9q2m7p'', timestamp = 1705314600000,
           contactInfo = property (inquiry nm em) ''contactInfo'',
           projectDetails = property (inquiry nm em) ''projectDetails'',
           status = New, notes' = None\<rparr> store)"
proof -
  from assms(2,3) have "passes_validation (inquiry nm em)"
    by (simp add: inquiry_passes)
  from handler_POST_valid [OF assms(1) this example_reachable, of store]
  have "handler example_env store (POST b) =
       (\<lparr>statusCode = 200, headers = json_headers,
         body' = Accepted (new_id example_env) ''Submission received successfully''\<rparr>,
        store_set (new_id example_env)
          \<lparr>id' = new_id example_env, timestamp = new_Date example_env,
           contactInfo = property (inquiry nm em) ''contactInfo'',
           projectDetails = property (inquiry nm em) ''projectDetails'',
           status = New, notes' = None\<rparr> store)" .
  moreover have "new_Date example_env = 1705314600000"
    by (simp add: example_env_def)
  ultimately show ?thesis by (simp add: example_id)
qed

lemma missing_fails_validation:
  assumes "opt_chain (property parsed ''contactInfo'') ''name'' = None
      \<or> opt_chain (property parsed ''contactInfo'') ''email'' = None
      \<or> opt_chain (property parsed ''contactInfo'') ''company'' = None
      \<or> opt_chain (property parsed ''projectDetails'') ''projectType'' = None
      \<or> opt_chain (property parsed ''projectDetails'') ''description'' = None
      \<or> opt_chain (property parsed ''projectDetails'') ''timeline'' = None"
  shows "\<not> passes_validation parsed"
  using assms unfolding passes_validation_def by (elim disjE) simp_all

lemma post_block_throws_irrelevant:
  "post_block (e\<lparr>email_block_throws := t\<rparr>) store b = post_block e store b"
  by (simp add: post_block_def sendEmailNotification_returns new_id_def Let_def
        split: option.splits json.splits)

lemma handler_throws_irrelevant:
  "handler (e\<lparr>email_block_throws := t\<rparr>) store ev = handler e store ev"
  by (simp add: handler_def get_block_def post_block_throws_irrelevant)

lemma example_listing:
  "Array_sort newest_first (map snd example_store)
     = map snd [stored_at ''sub_1705314700000_bbbbbbbbb'' 1705314700000,
                stored_at ''sub_1705314600000_aaaaaaaaa'' 1705314600000,
                stored_at ''sub_1705314500000_ccccccccc'' 1705314500000]"
  by (simp add: Array_sort_def example_store_def stored_at_def newest_first_def)

lemma post_block_store:
  "snd (post_block e store b) = store
   \<or> (\<exists>r. status r = New \<and> snd (post_block e store b) = store_set (new_id e) r store)"
proof (cases "JSON_parse e (body_or_default b)")
  case None
  then show ?thesis by (simp add: post_block_unparseable)
next
  case (Some parsed)
  show ?thesis
  proof (cases "parsed = JNull")
    case True
    with Some show ?thesis by (simp add: post_block_null)
  next
    case nn: False
    show ?thesis
    proof (cases "passes_validation parsed")
      case True
      let ?r = "\<lparr>id' = new_id e, timestamp = new_Date e,
           contactInfo = property parsed ''contactInfo'',
           projectDetails = property parsed ''projectDetails'',
           status = New, notes' = None\<rparr>"
      show ?thesis
      proof (cases "store_reachable e")
        case True
        with post_block_valid [OF Some \<open>passes_validation parsed\<close>, of store]
        have "status ?r = New \<and> snd (post_block e store b) = store_set (new_id e) ?r store"
          by simp
        then show ?thesis by blast
      next
        case False
        with post_block_valid [OF Some \<open>passes_validation parsed\<close>, of store]
        show ?thesis by simp
      qed
    next
      case False
      from post_block_invalid [OF Some nn False, of store] show ?thesis by auto
    qed
  qed
qed

lemma handler_store:
  "snd (handler e store ev) = store
   \<or> (\<exists>r. status r = New \<and> snd (handler e store ev) = store_set (new_id e) r store)"
proof -
  have "snd (handler e store ev) = store \<or> snd (handler e store ev) = snd (post_block e store (body ev))"
    by (auto simp: handler_def split: sum.splits prod.splits)
  with post_block_store [of e store "body ev"] show ?thesis by auto
qed

subsection \<open>The form on the example inputs\<close>

lemma form_rejects_no_at:
  "\<not> validateContactInfo
        \<lparr>name = ''John Smith'', email = ''ab.com'', company = ''TechCorp'', phone = Some ''+1-555-0123''\<rparr>"
  by code_simp

lemma form_rejects_no_dot:
  "\<not> validateContactInfo
        \<lparr>name = ''John Smith'', email = ''a@b'', company = ''TechCorp'', phone = Some ''+1-555-0123''\<rparr>"
  by code_simp

lemma form_accepts_short:
  "validateContactInfo
        \<lparr>name = ''John Smith'', email = ''a@b.c'', company = ''TechCorp'', phone = Some ''+1-555-0123''\<rparr>"
  by code_simp

lemma form_rejects_blank_name:
  "\<not> validateContactInfo
        \<lparr>name = ''   '', email = ''john@example.com'', company = ''TechCorp'', phone = Some ''+1-555-0123''\<rparr>"
  by code_simp

lemma form_rejects_blank_description:
  "\<not> validateProjectDetails
        \<lparr>projectType = ''System Architecture'', description = ''   '', timeline = ''3-6 months'',
         budget = None, requirements = None\<rparr>"
  by code_simp

lemma form_accepts_readme_project:
  "validateProjectDetails
        \<lparr>projectType = ''System Architecture'',
         description = ''Need help with scalable infrastructure'', timeline = ''3-6 months'',
         budget = Some ''$100k - $250k'', requirements = Some ''AWS, Kubernetes''\<rparr>"
  by code_simp

lemma parse_null:
  "JSON_parse example_env (body_or_default (Some ''null'')) = Some JNull"
  by (simp add: example_env_def example_parse_def)

lemma handler_POST_null:
  "JSON_parse e (body_or_default b) = Some JNull \<Longrightarrow>
   handler e store (POST b)
     = (\<lparr>statusCode = 500, headers = cors,
         body' = ErrorBody ''Failed to process submission''\<rparr>, store)"
  by (simp only: handler_POST post_block_null) simp

section \<open>The claims\<close>

text \<open>
  C1. The claim asks the service to reject an email address without an \<open>@\<close> or
  without a dot after it. The handler does not: its only test of \<open>email\<close> is that the
  value is truthy. Posted to an empty store, the request of the README with the address
  \<open>ab.com\<close> is answered 200 and stored, and so is the one with \<open>a@b\<close>, while
  the form's \<open>validateContactInfo\<close> turns both addresses down.
\<close>

theorem create_accepts_malformed_email:
  "handler example_env [] (POST (Some (inquiry_text ''John Smith'' ''ab.com'')))
     = (\<lparr>statusCode = 200, headers = json_headers,
         body' = Accepted ''sub_1705314600000_k3x9q2m7p'' ''Submission received successfully''\<rparr>,
        [(''sub_1705314600000_k3x9q2m7p'',
          \<lparr>id' = ''sub_1705314600000_k3x9q2m7p'', timestamp = 1705314600000,
           contactInfo = property (inquiry ''John Smith'' ''ab.com'') ''contactInfo'',
           projectDetails = property (inquiry ''John Smith'' ''ab.com'') ''projectDetails'',
           status = New, notes' = None\<rparr>)])
   \<and> statusCode (fst (handler example_env [] (POST (Some (inquiry_text ''John Smith'' ''a@b''))))) = 200
   \<and> \<not> validateContactInfo
        \<lparr>name = ''John Smith'', email = ''ab.com'', company = ''TechCorp'', phone = Some ''+1-555-0123''\<rparr>
   \<and> \<not> validateContactInfo
        \<lparr>name = ''John Smith'', email = ''a@b'', company = ''TechCorp'', phone = Some ''+1-555-0123''\<rparr>"
proof -
  have a: "handler example_env [] (POST (Some (inquiry_text ''John Smith'' ''ab.com'')))
     = (\<lparr>statusCode = 200, headers = json_headers,
         body' = Accepted ''sub_1705314600000_k3x9q2m7p'' ''Submission received successfully''\<rparr>,
        [(''sub_1705314600000_k3x9q2m7p'',
          \<lparr>id' = ''sub_1705314600000_k3x9q2m7p'', timestamp = 1705314600000,
           contactInfo = property (inquiry ''John Smith'' ''ab.com'') ''contactInfo'',
           projectDetails = property (inquiry ''John Smith'' ''ab.com'') ''projectDetails'',
           status = New, notes' = None\<rparr>)])"
    using handler_POST_example [OF parse_no_at, of "[]"] by simp
  have b: "statusCode (fst (handler example_env [] (POST (Some (inquiry_text ''John Smith'' ''a@b''))))) = 200"
    using handler_POST_example [OF parse_no_dot, of "[]"] by simp
  from a b form_rejects_no_at form_rejects_no_dot show ?thesis by blast
qed

text \<open>
  C2, as the claim states it, fails: a body that is the literal \<open>null\<close> is a
  request in which every required field is missing, and it is not answered 400. The
  destructuring \<open>const { contactInfo, projectDetails } = body\<close> throws on
  \<open>null\<close>, the \<open>catch\<close> of the POST branch takes over, and the answer is 500.
\<close>

theorem null_body_missing_fields_500:
  "JSON_parse example_env (body_or_default (Some ''null'')) = Some JNull
   \<and> opt_chain (property JNull ''contactInfo'') ''name'' = None
   \<and> handler example_env [] (POST (Some ''null''))
       = (\<lparr>statusCode = 500, headers = cors,
           body' = ErrorBody ''Failed to process submission''\<rparr>, [])"
proof -
  have "opt_chain (property JNull ''contactInfo'') ''name'' = None" by simp
  with parse_null handler_POST_null [OF parse_null, of "[]"] show ?thesis by blast
qed

text \<open>
  C2, amended. A POST whose body parses and in which one of \<open>contactInfo.name\<close>,
  \<open>contactInfo.email\<close>, \<open>contactInfo.company\<close>, \<open>projectDetails.projectType\<close>,
  \<open>projectDetails.description\<close> or \<open>projectDetails.timeline\<close> is missing (the
  read gives \<open>undefined\<close>, also when the whole part is missing) is answered 400,
  unless the body is the literal \<open>null\<close>, which is answered 500. In both cases the
  store is left as it was, so a listing asked afterwards is the listing that would have
  been given before.
\<close>

theorem create_missing_field_rejected:
  assumes parsed: "JSON_parse e (body_or_default b) = Some parsed"
    and missing:
      "opt_chain (property parsed ''contactInfo'') ''name'' = None
       \<or> opt_chain (property parsed ''contactInfo'') ''email'' = None
       \<or> opt_chain (property parsed ''contactInfo'') ''company'' = None
       \<or> opt_chain (property parsed ''projectDetails'') ''projectType'' = None
       \<or> opt_chain (property parsed ''projectDetails'') ''description'' = None
       \<or> opt_chain (property parsed ''projectDetails'') ''timeline'' = None"
  shows "statusCode (fst (handler e store (POST b))) = (if parsed = JNull then 500 else 400)
     \<and> snd (handler e store (POST b)) = store
     \<and> handler e2 (snd (handler e store (POST b))) GET = handler e2 store GET"
proof (cases "parsed = JNull")
  case True
  with parsed have "JSON_parse e (body_or_default b) = Some JNull" by simp
  from handler_POST_null [OF this, of store] True show ?thesis by simp
next
  case False
  from missing have "\<not> passes_validation parsed" by (rule missing_fails_validation)
  from post_block_invalid [OF parsed False this, of store]
  obtain msg where
    "post_block e store b = (Inr \<lparr>statusCode = 400, headers = cors, body' = ErrorBody msg\<rparr>, store)"
    by blast
  then have "handler e store (POST b) = (\<lparr>statusCode = 400, headers = cors, body' = ErrorBody msg\<rparr>, store)"
    by (simp add: handler_POST)
  with False show ?thesis by simp
qed

text \<open>
  The request of the README with \<open>company\<close> left out, posted to an empty store:
  400, the store stays empty, and the listing is the listing of the empty store. The
  literal \<open>null\<close>, posted to a store of three: 500, and the store keeps its three.
\<close>

theorem create_missing_field_rejected_witness:
  "statusCode (fst (handler example_env [] (POST (Some no_company_text)))) = 400
   \<and> snd (handler example_env [] (POST (Some no_company_text))) = []
   \<and> handler example_env (snd (handler example_env [] (POST (Some no_company_text)))) GET
       = handler example_env [] GET
   \<and> statusCode (fst (handler example_env example_store (POST (Some ''null'')))) = 500
   \<and> snd (handler example_env example_store (POST (Some ''null''))) = example_store"
proof -
  have n: "no_company \<noteq> JNull"
    by (simp add: no_company_def)
  have m: "opt_chain (property no_company ''contactInfo'') ''name'' = None
       \<or> opt_chain (property no_company ''contactInfo'') ''email'' = None
       \<or> opt_chain (property no_company ''contactInfo'') ''company'' = None
       \<or> opt_chain (property no_company ''projectDetails'') ''projectType'' = None
       \<or> opt_chain (property no_company ''projectDetails'') ''description'' = None
       \<or> opt_chain (property no_company ''projectDetails'') ''timeline'' = None"
    by (simp add: no_company_def)
  have m0: "opt_chain (property JNull ''contactInfo'') ''name'' = None
       \<or> opt_chain (property JNull ''contactInfo'') ''email'' = None
       \<or> opt_chain (property JNull ''contactInfo'') ''company'' = None
       \<or> opt_chain (property JNull ''projectDetails'') ''projectType'' = None
       \<or> opt_chain (property JNull ''projectDetails'') ''description'' = None
       \<or> opt_chain (property JNull ''projectDetails'') ''timeline'' = None"
    by simp
  from create_missing_field_rejected [OF parse_no_company m, of "[]" example_env] n
  have a: "statusCode (fst (handler example_env [] (POST (Some no_company_text)))) = 400
   \<and> snd (handler example_env [] (POST (Some no_company_text))) = []
   \<and> handler example_env (snd (handler example_env [] (POST (Some no_company_text)))) GET
       = handler example_env [] GET"
    by simp
  from create_missing_field_rejected [OF parse_null m0, of example_store example_env]
  have b: "statusCode (fst (handler example_env example_store (POST (Some ''null'')))) = 500
   \<and> snd (handler example_env example_store (POST (Some ''null''))) = example_store"
    by simp
  from a b show ?thesis by blast
qed

text \<open>
  C3. The claim asks the service to reject a required field that is present but blank.
  The handler rejects the empty string and nothing else that is blank: the request of
  the README with a name of three spaces is answered 200 and stored, while the form's
  \<open>validateContactInfo\<close>, which trims, turns that name down.
\<close>

theorem create_accepts_blank_name:
  "handler example_env [] (POST (Some (inquiry_text ''   '' ''john@example.com'')))
     = (\<lparr>statusCode = 200, headers = json_headers,
         body' = Accepted ''sub_1705314600000_k3x9q2m7p'' ''Submission received successfully''\<rparr>,
        [(''sub_1705314600000_k3x9q2m7p'',
          \<lparr>id' = ''sub_1705314600000_k3x9q2m7p'', timestamp = 1705314600000,
           contactInfo = property (inquiry ''   '' ''john@example.com'') ''contactInfo'',
           projectDetails = property (inquiry ''   '' ''john@example.com'') ''projectDetails'',
           status = New, notes' = None\<rparr>)])
   \<and> \<not> validateContactInfo
        \<lparr>name = ''   '', email = ''john@example.com'', company = ''TechCorp'', phone = Some ''+1-555-0123''\<rparr>"
proof -
  have a: "handler example_env [] (POST (Some (inquiry_text ''   '' ''john@example.com'')))
     = (\<lparr>statusCode = 200, headers = json_headers,
         body' = Accepted ''sub_1705314600000_k3x9q2m7p'' ''Submission received successfully''\<rparr>,
        [(''sub_1705314600000_k3x9q2m7p'',
          \<lparr>id' = ''sub_1705314600000_k3x9q2m7p'', timestamp = 1705314600000,
           contactInfo = property (inquiry ''   '' ''john@example.com'') ''contactInfo'',
           projectDetails = property (inquiry ''   '' ''john@example.com'') ''projectDetails'',
           status = New, notes' = None\<rparr>)])"
    using handler_POST_example [OF parse_blank_name, of "[]"] by simp
  from a form_rejects_blank_name show ?thesis by blast
qed

text \<open>
  C4, as the claim states it, fails: two requests served in the same millisecond and
  drawing the same random text get the same identifier, and the second submission
  replaces the first in the store. Nothing in the handler compares a new identifier
  with the keys already stored.
\<close>

theorem create_id_repeats:
  "body' (fst (handler example_env []
                (POST (Some (inquiry_text ''John Smith'' ''john@example.com'')))))
     = Accepted ''sub_1705314600000_k3x9q2m7p'' ''Submission received successfully''
   \<and> body' (fst (handler example_env
                   (snd (handler example_env []
                          (POST (Some (inquiry_text ''John Smith'' ''john@example.com'')))))
                   (POST (Some (inquiry_text ''Jane Doe'' ''jane@example.com'')))))
     = Accepted ''sub_1705314600000_k3x9q2m7p'' ''Submission received successfully''
   \<and> map (\<lambda>(k, v). (k, opt_chain (contactInfo v) ''name''))
        (snd (handler example_env
               (snd (handler example_env []
                      (POST (Some (inquiry_text ''John Smith'' ''john@example.com'')))))
               (POST (Some (inquiry_text ''Jane Doe'' ''jane@example.com'')))))
     = [(''sub_1705314600000_k3x9q2m7p'', Some (JStr ''Jane Doe''))]"
proof -
  have john: "handler example_env [] (POST (Some (inquiry_text ''John Smith'' ''john@example.com'')))
      = (\<lparr>statusCode = 200, headers = json_headers,
          body' = Accepted ''sub_1705314600000_k3x9q2m7p'' ''Submission received successfully''\<rparr>,
         store_set ''sub_1705314600000_k3x9q2m7p''
           \<lparr>id' = ''sub_1705314600000_k3x9q2m7p'', timestamp = 1705314600000,
            contactInfo = property (inquiry ''John Smith'' ''john@example.com'') ''contactInfo'',
            projectDetails = property (inquiry ''John Smith'' ''john@example.com'') ''projectDetails'',
            status = New, notes' = None\<rparr> [])"
    by (rule handler_POST_example [OF parse_john]) simp_all
  note jane = handler_POST_example [OF parse_jane, simplified]
  show ?thesis
    unfolding john by (simp add: jane) (simp add: inquiry_def)
qed

text \<open>
  C4, amended. For every body that parses and passes validation, with the store
  reachable, the handler answers 200 with the identifier
  \<open>sub_<Date.now()>_<random text>\<close>, built from the clock and the random source
  alone and never empty; the record stored under that identifier carries it, the
  instant read by \<open>new Date()\<close>, the two parts of the request and the status
  \<open>new\<close>; and the identifiers of two calls are equal exactly when both the clock
  reading and the random text are.
\<close>

theorem create_assigns_id_status_timestamp:
  assumes "JSON_parse e (body_or_default b) = Some parsed" "passes_validation parsed"
    "store_reachable e"
  shows "handler e store (POST b) =
       (\<lparr>statusCode = 200, headers = json_headers,
         body' = Accepted (new_id e) ''Submission received successfully''\<rparr>,
        store_set (new_id e)
          \<lparr>id' = new_id e, timestamp = new_Date e,
           contactInfo = property parsed ''contactInfo'',
           projectDetails = property parsed ''projectDetails'',
           status = New, notes' = None\<rparr> store)
     \<and> map_of (snd (handler e store (POST b))) (new_id e) =
         Some \<lparr>id' = new_id e, timestamp = new_Date e,
               contactInfo = property parsed ''contactInfo'',
               projectDetails = property parsed ''projectDetails'',
               status = New, notes' = None\<rparr>
     \<and> new_id e = ''sub_'' @ Number_toString (Date_now e) @ ''_'' @ Math_random_token e
     \<and> new_id e \<noteq> []
     \<and> (new_id e = new_id e2) =
         (Date_now e = Date_now e2 \<and> Math_random_token e = Math_random_token e2)"
proof -
  have h: "handler e store (POST b) =
       (\<lparr>statusCode = 200, headers = json_headers,
         body' = Accepted (new_id e) ''Submission received successfully''\<rparr>,
        store_set (new_id e)
          \<lparr>id' = new_id e, timestamp = new_Date e,
           contactInfo = property parsed ''contactInfo'',
           projectDetails = property parsed ''projectDetails'',
           status = New, notes' = None\<rparr> store)"
    using assms by (rule handler_POST_valid)
  have m: "map_of (snd (handler e store (POST b))) (new_id e) =
         Some \<lparr>id' = new_id e, timestamp = new_Date e,
               contactInfo = property parsed ''contactInfo'',
               projectDetails = property parsed ''projectDetails'',
               status = New, notes' = None\<rparr>"
    unfolding h by (simp add: map_of_store_set)
  have f: "new_id e = ''sub_'' @ Number_toString (Date_now e) @ ''_'' @ Math_random_token e"
    by (rule new_id_def)
  from h m f new_id_nonempty [of e] new_id_inject [of e e2] show ?thesis by blast
qed

text \<open>
  The request of the README, posted to an empty store: the answer carries the
  identifier, the store holds the record under it, and a later millisecond or another
  random text gives another identifier.
\<close>

theorem create_assigns_id_status_timestamp_witness:
  "handler example_env [] (POST (Some (inquiry_text ''John Smith'' ''john@example.com'')))
     = (\<lparr>statusCode = 200, headers = json_headers,
         body' = Accepted ''sub_1705314600000_k3x9q2m7p'' ''Submission received successfully''\<rparr>,
        [stored_at ''sub_1705314600000_k3x9q2m7p'' 1705314600000])
   \<and> new_id example_env \<noteq> new_id (example_env\<lparr>Date_now := 1705314600001\<rparr>)
   \<and> new_id example_env \<noteq> new_id (example_env\<lparr>Math_random_token := ''k3x9q2m7q''\<rparr>)"
proof -
  have v: "passes_validation (inquiry ''John Smith'' ''john@example.com'')"
    by (simp add: inquiry_passes)
  note t1 = create_assigns_id_status_timestamp
    [OF parse_john v example_reachable, of "[]" "example_env\<lparr>Date_now := 1705314600001\<rparr>"]
  note t2 = create_assigns_id_status_timestamp
    [OF parse_john v example_reachable, of "[]" "example_env\<lparr>Math_random_token := ''k3x9q2m7q''\<rparr>"]
  have nd: "new_Date example_env = 1705314600000"
    by (simp add: example_env_def)
  from t1 have "handler example_env [] (POST (Some (inquiry_text ''John Smith'' ''john@example.com'')))
     = (\<lparr>statusCode = 200, headers = json_headers,
         body' = Accepted (new_id example_env) ''Submission received successfully''\<rparr>,
        store_set (new_id example_env)
          \<lparr>id' = new_id example_env, timestamp = new_Date example_env,
           contactInfo = property (inquiry ''John Smith'' ''john@example.com'') ''contactInfo'',
           projectDetails = property (inquiry ''John Smith'' ''john@example.com'') ''projectDetails'',
           status = New, notes' = None\<rparr> [])"
    by blast
  then have h: "handler example_env [] (POST (Some (inquiry_text ''John Smith'' ''john@example.com'')))
     = (\<lparr>statusCode = 200, headers = json_headers,
         body' = Accepted ''sub_1705314600000_k3x9q2m7p'' ''Submission received successfully''\<rparr>,
        [stored_at ''sub_1705314600000_k3x9q2m7p'' 1705314600000])"
    unfolding example_id nd stored_at_def by simp
  have "Date_now example_env \<noteq> Date_now (example_env\<lparr>Date_now := 1705314600001\<rparr>)"
    by (simp add: example_env_def)
  with t1 have n1: "new_id example_env \<noteq> new_id (example_env\<lparr>Date_now := 1705314600001\<rparr>)"
    by blast
  have "Math_random_token example_env
      \<noteq> Math_random_token (example_env\<lparr>Math_random_token := ''k3x9q2m7q''\<rparr>)"
    by (simp add: example_env_def)
  with t2 have n2: "new_id example_env \<noteq> new_id (example_env\<lparr>Math_random_token := ''k3x9q2m7q''\<rparr>)"
    by blast
  from h n1 n2 show ?thesis by blast
qed

text \<open>
  C5. \<open>sendEmailNotification\<close> always returns a boolean and never throws:
  \<open>true\<close> when its block completes, \<open>false\<close> when anything in it throws. What
  the handler answers and what it leaves in the store do not depend on whether the
  block throws; in particular a valid request to a reachable store is answered 200 and
  stored even when the notifier fails.
\<close>

theorem notification_never_fails_create:
  "(\<exists>sent. sendEmailNotification e submission = Inr sent)
   \<and> sendEmailNotification e submission
       = Inr (case email_block e submission of Inr u \<Rightarrow> True | Inl error \<Rightarrow> False)
   \<and> handler (e\<lparr>email_block_throws := t\<rparr>) store ev = handler e store ev
   \<and> (JSON_parse e (body_or_default b) = Some parsed \<and> passes_validation parsed
        \<and> store_reachable e
       \<longrightarrow> statusCode (fst (handler (e\<lparr>email_block_throws := True\<rparr>) store (POST b))) = 200
         \<and> snd (handler (e\<lparr>email_block_throws := True\<rparr>) store (POST b))
             = snd (handler (e\<lparr>email_block_throws := False\<rparr>) store (POST b)))"
proof -
  have a: "\<exists>sent. sendEmailNotification e submission = Inr sent"
    by (simp add: sendEmailNotification_returns)
  have b: "sendEmailNotification e submission
       = Inr (case email_block e submission of Inr u \<Rightarrow> True | Inl error \<Rightarrow> False)"
    by (simp add: sendEmailNotification_def split: sum.splits)
  have c: "handler (e\<lparr>email_block_throws := t\<rparr>) store ev = handler e store ev"
    by (rule handler_throws_irrelevant)
  have d: "statusCode (fst (handler (e\<lparr>email_block_throws := True\<rparr>) store (POST b))) = 200
         \<and> snd (handler (e\<lparr>email_block_throws := True\<rparr>) store (POST b))
             = snd (handler (e\<lparr>email_block_throws := False\<rparr>) store (POST b))"
    if "JSON_parse e (body_or_default b) = Some parsed" "passes_validation parsed" "store_reachable e"
    using handler_POST_valid [OF that, of store] by (simp add: handler_throws_irrelevant)
  from a b c d show ?thesis by blast
qed

text \<open>
  The request of the README with a notifier whose block throws: the notifier returns
  \<open>false\<close>, the answer is 200 and the submission is in the store.
\<close>

theorem notification_never_fails_create_witness:
  "sendEmailNotification (example_env\<lparr>email_block_throws := True\<rparr>)
      (snd (stored_at ''sub_1705314600000_k3x9q2m7p'' 1705314600000)) = Inr False
   \<and> statusCode (fst (handler (example_env\<lparr>email_block_throws := True\<rparr>) []
        (POST (Some (inquiry_text ''John Smith'' ''john@example.com''))))) = 200
   \<and> map fst (snd (handler (example_env\<lparr>email_block_throws := True\<rparr>) []
        (POST (Some (inquiry_text ''John Smith'' ''john@example.com'')))))
       = [''sub_1705314600000_k3x9q2m7p'']"
proof -
  have v: "passes_validation (inquiry ''John Smith'' ''john@example.com'')"
    by (simp add: inquiry_passes)
  have f: "snd (handler (example_env\<lparr>email_block_throws := False\<rparr>) []
        (POST (Some (inquiry_text ''John Smith'' ''john@example.com''))))
      = [stored_at ''sub_1705314600000_k3x9q2m7p'' 1705314600000]"
    using handler_POST_example [OF parse_john, of "[]"]
      notification_never_fails_create
        [of example_env "snd (stored_at ''sub_1705314600000_k3x9q2m7p'' 1705314600000)" False "[]"
            "POST (Some (inquiry_text ''John Smith'' ''john@example.com''))"]
    by (simp add: stored_at_def)
  have s: "sendEmailNotification (example_env\<lparr>email_block_throws := True\<rparr>)
      (snd (stored_at ''sub_1705314600000_k3x9q2m7p'' 1705314600000)) = Inr False"
    using notification_never_fails_create
        [of "example_env\<lparr>email_block_throws := True\<rparr>"
            "snd (stored_at ''sub_1705314600000_k3x9q2m7p'' 1705314600000)"]
    by (simp add: email_block_def)
  from notification_never_fails_create
        [of example_env _ _ _ _ "Some (inquiry_text ''John Smith'' ''john@example.com'')"
            "inquiry ''John Smith'' ''john@example.com''"]
    parse_john v example_reachable
  have "statusCode (fst (handler (example_env\<lparr>email_block_throws := True\<rparr>) []
        (POST (Some (inquiry_text ''John Smith'' ''john@example.com''))))) = 200
     \<and> snd (handler (example_env\<lparr>email_block_throws := True\<rparr>) []
        (POST (Some (inquiry_text ''John Smith'' ''john@example.com''))))
         = snd (handler (example_env\<lparr>email_block_throws := False\<rparr>) []
        (POST (Some (inquiry_text ''John Smith'' ''john@example.com''))))"
    by blast
  with f s show ?thesis by (simp add: stored_at_def)
qed

text \<open>
  C6. With the store reachable, a GET is answered 200 with a listing that holds exactly
  the stored records, each as often as it is stored, in an order in which no record
  stands before a newer one. Records of equal timestamp may stand in either order.
\<close>

theorem list_newest_first:
  assumes "store_reachable e"
  shows "\<exists>subs. handler e store GET
           = (\<lparr>statusCode = 200, headers = json_headers, body' = Listing subs\<rparr>, store)
         \<and> mset subs = mset (map snd store)
         \<and> sorted_wrt not_older subs"
proof -
  let ?subs = "Array_sort newest_first (map snd store)"
  have "handler e store GET
      = (\<lparr>statusCode = 200, headers = json_headers, body' = Listing ?subs\<rparr>, store)"
    using assms by (simp add: handler_GET get_block_def)
  moreover have "mset ?subs = mset (map snd store)"
    by (rule mset_Array_sort)
  moreover have "sorted_wrt not_older ?subs"
    by (rule sorted_Array_sort)
  ultimately show ?thesis by blast
qed

text \<open>
  Three stored submissions, the newest stored second: the listing gives them newest first.
\<close>

theorem list_newest_first_witness:
  "map timestamp
     (case body' (fst (handler example_env example_store GET)) of
        Listing subs \<Rightarrow> subs | other \<Rightarrow> [])
     = [1705314700000, 1705314600000, 1705314500000]
   \<and> statusCode (fst (handler example_env example_store GET)) = 200"
proof -
  from list_newest_first [OF example_reachable, of example_store]
  obtain subs where h: "handler example_env example_store GET
           = (\<lparr>statusCode = 200, headers = json_headers, body' = Listing subs\<rparr>, example_store)"
    by blast
  have "handler example_env example_store GET
      = (\<lparr>statusCode = 200, headers = json_headers,
          body' = Listing (Array_sort newest_first (map snd example_store))\<rparr>, example_store)"
    using example_reachable by (simp add: handler_GET get_block_def)
  with h have "subs = Array_sort newest_first (map snd example_store)" by simp
  with h show ?thesis by (simp add: example_listing stored_at_def)
qed

text \<open>
  C7, as the claim states it, fails: the dashboard shows the three buttons New,
  Reviewed and Responded for every submission, whatever its status, and
  \<open>updateSubmissionStatus\<close> installs the status it is given. A click on New in
  the detail panel of a submission that is \<open>responded\<close>, with no notes typed, calls
  it with \<open>new\<close> and the empty notes, and the submission is \<open>new\<close> again.
\<close>

theorem status_moves_backward:
  "map status [example_row ''sub_1'' Responded None] = [Responded]
   \<and> map status
        (updateSubmissionStatus ''sub_1'' New (Some []) [example_row ''sub_1'' Responded None])
       = [New]"
  by (simp add: updateSubmissionStatus_def example_row_def)

text \<open>
  C7, amended. Whatever request the handler serves, every record in the store afterwards
  is a record that was there before, unchanged, or has the status \<open>new\<close>: the
  service creates submissions as \<open>new\<close> and never moves a status. On the dashboard
  \<open>updateSubmissionStatus\<close> gives the submissions with the target identifier the
  status it is called with, whatever their status was, and leaves the status of the
  others alone: any of the three states can follow any other.
\<close>

theorem status_changes_only_by_update:
  "(\<forall>k v. map_of (snd (handler e store ev)) k = Some v
        \<longrightarrow> map_of store k = Some v \<or> status v = New)
   \<and> map status (updateSubmissionStatus i st n prev)
       = map (\<lambda>sub. if id' sub = i then st else status sub) prev"
proof -
  have a: "map_of store k = Some v \<or> status v = New"
    if "map_of (snd (handler e store ev)) k = Some v" for k v
    using handler_store [of e store ev] that
    by (auto simp: map_of_store_set split: if_splits)
  have b: "map status (updateSubmissionStatus i st n prev)
       = map (\<lambda>sub. if id' sub = i then st else status sub) prev"
    by (auto simp: updateSubmissionStatus_def split: option.splits)
  from a b show ?thesis by blast
qed

text \<open>
  A submission posted to a store of three leaves four records, all \<open>new\<close>; on the
  dashboard the second of two rows is moved to \<open>responded\<close>.
\<close>

theorem status_changes_only_by_update_witness:
  "map status (map snd (snd (handler example_env example_store
        (POST (Some (inquiry_text ''John Smith'' ''john@example.com''))))))
     = [New, New, New, New]
   \<and> map status (updateSubmissionStatus ''sub_2'' Responded None
        [example_row ''sub_1'' New None, example_row ''sub_2'' New None])
     = [New, Responded]"
proof -
  have p: "snd (handler example_env example_store
        (POST (Some (inquiry_text ''John Smith'' ''john@example.com''))))
     = example_store @ [stored_at ''sub_1705314600000_k3x9q2m7p'' 1705314600000]"
    by (simp add: handler_POST_example [OF parse_john] example_store_def stored_at_def)
  have "map_of (snd (handler example_env example_store
        (POST (Some (inquiry_text ''John Smith'' ''john@example.com'')))))
        ''sub_1705314600000_k3x9q2m7p''
      = Some (snd (stored_at ''sub_1705314600000_k3x9q2m7p'' 1705314600000))"
    unfolding p by (simp add: example_store_def stored_at_def)
  with status_changes_only_by_update
    [of example_env example_store "POST (Some (inquiry_text ''John Smith'' ''john@example.com''))"
        "''sub_2''" Responded None "[example_row ''sub_1'' New None, example_row ''sub_2'' New None]"]
  have "(map_of example_store ''sub_1705314600000_k3x9q2m7p''
           = Some (snd (stored_at ''sub_1705314600000_k3x9q2m7p'' 1705314600000))
         \<or> status (snd (stored_at ''sub_1705314600000_k3x9q2m7p'' 1705314600000)) = New)
     \<and> map status (updateSubmissionStatus ''sub_2'' Responded None
        [example_row ''sub_1'' New None, example_row ''sub_2'' New None])
       = map (\<lambda>sub. if id' sub = ''sub_2'' then Responded else status sub)
           [example_row ''sub_1'' New None, example_row ''sub_2'' New None]"
    by blast
  then show ?thesis
    unfolding p by (simp add: example_store_def stored_at_def example_row_def)
qed

text \<open>
  C8. The text \<open>exportToCSV\<close> produces is the header line followed, for every
  submission the filter lets through, by a line feed and the twelve cells of its row
  joined by commas: the first ten are the stored texts as they are (an absent phone or
  budget is the empty text), the eleventh is the description and the twelfth the
  requirements (empty when absent), each between double quotes with its own double
  quotes doubled. Doubling turns every double quote into two and changes nothing else;
  reading a quoted cell back as CSV gives the original text, for every text, and a
  cell reads as a text only if it is the quoting of that text.
\<close>

theorem csv_description_roundtrip:
  "exportToCSV flt submissions =
     ''ID,Timestamp,Name,Email,Company,Phone,Project Type,Timeline,Budget,Status,Description,Requirements''
     @ concat (map (\<lambda>sub.
         [CHR 0x0A] @ id' sub @ '','' @ timestamp sub @ '','' @ name (contactInfo sub) @ '',''
         @ email (contactInfo sub) @ '','' @ company (contactInfo sub) @ '',''
         @ (case phone (contactInfo sub) of None \<Rightarrow> [] | Some p \<Rightarrow> p) @ '',''
         @ projectType (projectDetails sub) @ '','' @ timeline (projectDetails sub) @ '',''
         @ (case budget (projectDetails sub) of None \<Rightarrow> [] | Some m \<Rightarrow> m) @ '',''
         @ (case status sub of New \<Rightarrow> ''new'' | Reviewed \<Rightarrow> ''reviewed''
                              | Responded \<Rightarrow> ''responded'') @ '',''
         @ [dquote] @ replace_quotes (description (projectDetails sub)) @ [dquote] @ '',''
         @ [dquote]
         @ replace_quotes (case requirements (projectDetails sub) of None \<Rightarrow> [] | Some r \<Rightarrow> r)
         @ [dquote])
       (filter (\<lambda>sub. flt = AllStatuses \<or> flt = OnlyStatus (status sub)) submissions))
   \<and> replace_quotes (a @ [dquote] @ b) = replace_quotes a @ [dquote, dquote] @ replace_quotes b
   \<and> (dquote \<notin> set s \<longrightarrow> replace_quotes s = s)
   \<and> csv_unquote ([dquote] @ replace_quotes d @ [dquote]) = Some d
   \<and> (csv_unquote field = Some d \<longrightarrow> field = [dquote] @ replace_quotes d @ [dquote])"
proof -
  have row: "join '','' (csv_fields sub) =
         id' sub @ '','' @ timestamp sub @ '','' @ name (contactInfo sub) @ '',''
         @ email (contactInfo sub) @ '','' @ company (contactInfo sub) @ '',''
         @ (case phone (contactInfo sub) of None \<Rightarrow> [] | Some p \<Rightarrow> p) @ '',''
         @ projectType (projectDetails sub) @ '','' @ timeline (projectDetails sub) @ '',''
         @ (case budget (projectDetails sub) of None \<Rightarrow> [] | Some m \<Rightarrow> m) @ '',''
         @ (case status sub of New \<Rightarrow> ''new'' | Reviewed \<Rightarrow> ''reviewed''
                              | Responded \<Rightarrow> ''responded'') @ '',''
         @ [dquote] @ replace_quotes (description (projectDetails sub)) @ [dquote] @ '',''
         @ [dquote]
         @ replace_quotes (case requirements (projectDetails sub) of None \<Rightarrow> [] | Some r \<Rightarrow> r)
         @ [dquote]" for sub :: dashboard_submission
    by (simp add: csv_fields_def or_empty_replace_quotes or_empty_case [symmetric]
          status_text_case [symmetric])
  have sel: "filter (shown flt) submissions
      = filter (\<lambda>sub. flt = AllStatuses \<or> flt = OnlyStatus (status sub)) submissions"
    by (simp only: shown_iff)
  have out: "exportToCSV flt submissions =
     ''ID,Timestamp,Name,Email,Company,Phone,Project Type,Timeline,Budget,Status,Description,Requirements''
     @ concat (map (\<lambda>sub. [CHR 0x0A] @ join '','' (csv_fields sub))
         (filter (\<lambda>sub. flt = AllStatuses \<or> flt = OnlyStatus (status sub)) submissions))"
    by (simp add: exportToCSV_def join_Cons csv_header_def sel comp_def)
  have q: "replace_quotes (a @ [dquote] @ b) = replace_quotes a @ [dquote, dquote] @ replace_quotes b"
    by (simp add: replace_quotes_append replace_quotes_Cons replace_quotes_Nil)
  have p: "dquote \<notin> set s \<longrightarrow> replace_quotes s = s"
    by (simp add: replace_quotes_plain)
  have u: "csv_unquote ([dquote] @ replace_quotes d @ [dquote]) = Some d"
    by (rule csv_unquote_quoted)
  have o: "csv_unquote field = Some d \<longrightarrow> field = [dquote] @ replace_quotes d @ [dquote]"
    by (blast dest: csv_unquote_only)
  from out q p u o show ?thesis
    unfolding row by blast
qed

text \<open>
  Two rows, one \<open>new\<close> with a description that holds double quotes and one
  \<open>responded\<close>, exported under the filter \<open>new\<close>: the file is the header and
  the first row, and the quoted description reads back as it was entered.
\<close>

theorem csv_description_roundtrip_witness:
  \<open>exportToCSV (OnlyStatus New)
      [(example_row ''sub_1'' New None)
         \<lparr>projectDetails :=
            (projectDetails (example_row ''sub_1'' New None))\<lparr>description := ''say "hi"''\<rparr>\<rparr>,
       example_row ''sub_2'' Responded None]
     = ''ID,Timestamp,Name,Email,Company,Phone,Project Type,Timeline,Budget,Status,Description,Requirements''
       @ [CHR 0x0A]
       @ ''sub_1,2024-01-15T10:30:00.000Z,John Smith,john@example.com,TechCorp,+1-555-0123,''
       @ ''System Architecture,3-6 months,$100k - $250k,new,"say ""hi""","AWS, Kubernetes"''
   \<and> csv_unquote ''"say ""hi"""'' = Some ''say "hi"''
   \<and> replace_quotes ''AWS, Kubernetes'' = ''AWS, Kubernetes''\<close>
proof -
  note t = csv_description_roundtrip
    [of "OnlyStatus New"
        "[(example_row ''sub_1'' New None)
            \<lparr>projectDetails :=
               (projectDetails (example_row ''sub_1'' New None))
                 \<lparr>description := ''say '' @ [dquote] @ ''hi'' @ [dquote]\<rparr>\<rparr>,
          example_row ''sub_2'' Responded None]"
        "''say ''" "''hi'' @ [dquote]" "''AWS, Kubernetes''"
        "''say '' @ [dquote] @ ''hi'' @ [dquote]"
        "[dquote] @ ''say '' @ [dquote, dquote] @ ''hi'' @ [dquote, dquote] @ [dquote]"]
  have plain: "dquote \<notin> set ''AWS, Kubernetes''"
    by (simp add: dquote_def)
  from t plain show ?thesis
    by (simp add: example_row_def replace_quotes_def dquote_def)
qed




text \<open>
  C10. \<open>updateSubmissionStatus\<close> keeps the length of the list and the order of the
  identifiers, leaves a submission with another identifier as it is, and in a submission
  with the target identifier changes the status, and the notes only when notes are given.
\<close>

theorem updateSubmissionStatus_frame:
  "length (updateSubmissionStatus i st n prev) = length prev
   \<and> map id' (updateSubmissionStatus i st n prev) = map id' prev
   \<and> (\<forall>k < length prev.
         (id' (prev ! k) \<noteq> i \<longrightarrow> updateSubmissionStatus i st n prev ! k = prev ! k)
         \<and> (id' (prev ! k) = i \<longrightarrow>
              updateSubmissionStatus i st n prev ! k
                = (prev ! k)\<lparr>status := st,
                            notes' := (case n of None \<Rightarrow> notes' (prev ! k) | Some x \<Rightarrow> Some x)\<rparr>))"
  by (auto simp: updateSubmissionStatus_def split: option.splits)

text \<open>
  Three rows, the second addressed: without notes only its status changes, with notes
  its notes are replaced as well.
\<close>

theorem updateSubmissionStatus_frame_witness:
  "updateSubmissionStatus ''sub_2'' Reviewed None
      [example_row ''sub_1'' New None, example_row ''sub_2'' New (Some ''call back''),
       example_row ''sub_3'' Responded None]
     = [example_row ''sub_1'' New None, example_row ''sub_2'' Reviewed (Some ''call back''),
        example_row ''sub_3'' Responded None]
   \<and> updateSubmissionStatus ''sub_2'' Reviewed (Some ''done'')
      [example_row ''sub_1'' New None, example_row ''sub_2'' New (Some ''call back''),
       example_row ''sub_3'' Responded None] ! 1
     = example_row ''sub_2'' Reviewed (Some ''done'')"
proof -
  let ?prev = "[example_row ''sub_1'' New None, example_row ''sub_2'' New (Some ''call back''),
       example_row ''sub_3'' Responded None]"
  have len: "length (updateSubmissionStatus ''sub_2'' Reviewed None ?prev) = 3"
    using updateSubmissionStatus_frame [of "''sub_2''" Reviewed None ?prev] by simp
  have n0: "updateSubmissionStatus ''sub_2'' Reviewed None ?prev ! 0 = example_row ''sub_1'' New None"
    using updateSubmissionStatus_frame [of "''sub_2''" Reviewed None ?prev]
    by (simp add: example_row_def)
  have n1: "updateSubmissionStatus ''sub_2'' Reviewed None ?prev ! 1
      = example_row ''sub_2'' Reviewed (Some ''call back'')"
    using updateSubmissionStatus_frame [of "''sub_2''" Reviewed None ?prev]
    by (simp add: example_row_def)
  have n2: "updateSubmissionStatus ''sub_2'' Reviewed None ?prev ! 2
      = example_row ''sub_3'' Responded None"
    using updateSubmissionStatus_frame [of "''sub_2''" Reviewed None ?prev]
    by (simp add: example_row_def)
  have whole: "updateSubmissionStatus ''sub_2'' Reviewed None ?prev
     = [example_row ''sub_1'' New None, example_row ''sub_2'' Reviewed (Some ''call back''),
        example_row ''sub_3'' Responded None]"
    using len n0 n1 n2 by (auto simp: list_eq_iff_nth_eq less_Suc_eq numeral_3_eq_3 numeral_2_eq_2)
  have m1: "updateSubmissionStatus ''sub_2'' Reviewed (Some ''done'') ?prev ! 1
      = example_row ''sub_2'' Reviewed (Some ''done'')"
    using updateSubmissionStatus_frame [of "''sub_2''" Reviewed "Some ''done''" ?prev]
    by (simp add: example_row_def)
  from whole m1 show ?thesis by blast
qed

end
